theory Spec2Isabelle
  imports Main
begin

section \<open>The JavaScript Date built-ins the code calls\<close>

text \<open>
  A JavaScript \<^verbatim>\<open>Date\<close> holds a time value: milliseconds since 1970-01-01T00:00Z,
  here an \<open>int\<close>. The functions below follow the abstract operations of ECMAScript
  (sec. "Date Objects"): \<open>Day\<close>, \<open>TimeWithinDay\<close>, \<open>DayFromYear\<close>, \<open>YearFromTime\<close>,
  \<open>MonthFromTime\<close>, \<open>DateFromTime\<close>, \<open>MakeDay\<close>, \<open>MakeDate\<close>, \<open>LocalTime\<close> and
  \<open>UTC\<close>. A \<open>clock\<close> is a browser whose time zone has a fixed offset from UTC;
  \<open>offsetMin\<close> is local time minus UTC in minutes, so \<open>-300\<close> is UTC-05:00 and \<open>120\<close>
  is UTC+02:00. The legacy form is studied on such clocks. A \<open>host\<close>, further down,
  is a browser in any zone, daylight saving included; the flight service runs on a host.
\<close>

record clock =
  now :: int
  offsetMin :: int

definition msPerDay :: int where
  "msPerDay = 86400000"

definition msPerMinute :: int where
  "msPerMinute = 60000"

definition Day :: "int \<Rightarrow> int" where
  "Day t = t div msPerDay"

definition TimeWithinDay :: "int \<Rightarrow> int" where
  "TimeWithinDay t = t mod msPerDay"

definition DayFromYear :: "int \<Rightarrow> int" where
  "DayFromYear y =
     365 * (y - 1970) + (y - 1969) div 4 - (y - 1901) div 100 + (y - 1601) div 400"

definition InLeapYear :: "int \<Rightarrow> bool" where
  "InLeapYear y =
     (if y mod 4 = 0 then (if y mod 100 = 0 then y mod 400 = 0 else True) else False)"

text \<open>
  \<open>YearFromDay d\<close> is the year \<open>y\<close> with \<open>DayFromYear y \<le> d < DayFromYear (y + 1)\<close>:
  the mean year has 146097 / 400 days, so the estimate is off by at most one.
\<close>

definition YearFromDay :: "int \<Rightarrow> int" where
  "YearFromDay d =
     (let y0 = 1970 + (400 * d) div 146097
      in if DayFromYear (y0 + 1) \<le> d then y0 + 1
         else if d < DayFromYear y0 then y0 - 1
         else y0)"

definition monthStart :: "bool \<Rightarrow> int \<Rightarrow> int" where
  "monthStart leap m =
     (let l = (if leap then 1 else 0) in
      if m = 0 then 0
      else if m = 1 then 31
      else if m = 2 then 59 + l
      else if m = 3 then 90 + l
      else if m = 4 then 120 + l
      else if m = 5 then 151 + l
      else if m = 6 then 181 + l
      else if m = 7 then 212 + l
      else if m = 8 then 243 + l
      else if m = 9 then 273 + l
      else if m = 10 then 304 + l
      else 334 + l)"

definition MonthFromDayInYear :: "bool \<Rightarrow> int \<Rightarrow> int" where
  "MonthFromDayInYear leap n =
     (let l = (if leap then 1 else 0) in
      if n < 31 then 0
      else if n < 59 + l then 1
      else if n < 90 + l then 2
      else if n < 120 + l then 3
      else if n < 151 + l then 4
      else if n < 181 + l then 5
      else if n < 212 + l then 6
      else if n < 243 + l then 7
      else if n < 273 + l then 8
      else if n < 304 + l then 9
      else if n < 334 + l then 10
      else 11)"

definition YearFromTime :: "int \<Rightarrow> int" where
  "YearFromTime t = YearFromDay (Day t)"

definition DayWithinYear :: "int \<Rightarrow> int" where
  "DayWithinYear t = Day t - DayFromYear (YearFromTime t)"

definition MonthFromTime :: "int \<Rightarrow> int" where
  "MonthFromTime t = MonthFromDayInYear (InLeapYear (YearFromTime t)) (DayWithinYear t)"

definition DateFromTime :: "int \<Rightarrow> int" where
  "DateFromTime t =
     DayWithinYear t - monthStart (InLeapYear (YearFromTime t)) (MonthFromTime t) + 1"

definition MakeDay :: "int \<Rightarrow> int \<Rightarrow> int \<Rightarrow> int" where
  "MakeDay year month dt =
     (let ym = year + month div 12; mn = month mod 12
      in DayFromYear ym + monthStart (InLeapYear ym) mn + dt - 1)"

definition MakeDate :: "int \<Rightarrow> int \<Rightarrow> int" where
  "MakeDate day time = day * msPerDay + time"

definition LocalTime :: "clock \<Rightarrow> int \<Rightarrow> int" where
  "LocalTime c t = t + offsetMin c * msPerMinute"

definition UTC :: "clock \<Rightarrow> int \<Rightarrow> int" where
  "UTC c t = t - offsetMin c * msPerMinute"

text \<open>\<^verbatim>\<open>new Date("YYYY-MM-DD")\<close>: a date-only ISO string is read as midnight UTC of
  that day. The day is held as its number of days since 1970-01-01.\<close>

definition parseISODate :: "int \<Rightarrow> int" where
  "parseISODate d = MakeDate d 0"

text \<open>\<^verbatim>\<open>d.setHours(0, 0, 0, 0)\<close>: midnight of the local day of \<open>t\<close>.\<close>

definition setHours0 :: "clock \<Rightarrow> int \<Rightarrow> int" where
  "setHours0 c t = UTC c (MakeDate (Day (LocalTime c t)) 0)"

definition getFullYear :: "clock \<Rightarrow> int \<Rightarrow> int" where
  "getFullYear c t = YearFromTime (LocalTime c t)"

text \<open>\<^verbatim>\<open>d.setFullYear(y)\<close>: the local month, day of month and time of day are kept.\<close>

definition setFullYear :: "clock \<Rightarrow> int \<Rightarrow> int \<Rightarrow> int" where
  "setFullYear c t y =
     (let lt = LocalTime c t
      in UTC c (MakeDate (MakeDay y (MonthFromTime lt) (DateFromTime lt)) (TimeWithinDay lt)))"

text \<open>\<^verbatim>\<open>d.toISOString().split('T')[0]\<close>: the UTC calendar day of \<open>t\<close>, held as its
  day number (the string is its ten-character rendering YYYY-MM-DD).\<close>

definition toISODate :: "int \<Rightarrow> int" where
  "toISODate t = Day t"

text \<open>The local calendar day of the clock: what a user in that zone calls today.\<close>

definition localToday :: "clock \<Rightarrow> int" where
  "localToday c = Day (LocalTime c (now c))"

subsection \<open>A browser in any time zone\<close>

text \<open>
  \<open>currentTime\<close> is the time value of \<^verbatim>\<open>new Date()\<close>. The zone is given by ECMAScript's
  \<open>LocalTZA\<close>, in minutes: \<open>offsetAtUTC u\<close> is the offset in force at the instant \<open>u\<close>
  (\<open>LocalTZA(u, true)\<close>), and \<open>offsetAtLocal l\<close> is the offset by which the local time
  value \<open>l\<close> is read back (\<open>LocalTZA(l, false)\<close>; a local time that a switch skips or
  repeats is read with the offset in force before the switch). In a zone with daylight
  saving the two change with their argument.
\<close>

record host =
  currentTime :: int
  offsetAtUTC :: "int \<Rightarrow> int"
  offsetAtLocal :: "int \<Rightarrow> int"

definition hostLocalTime :: "host \<Rightarrow> int \<Rightarrow> int" where
  "hostLocalTime h t = t + offsetAtUTC h t * msPerMinute"

definition hostUTC :: "host \<Rightarrow> int \<Rightarrow> int" where
  "hostUTC h t = t - offsetAtLocal h t * msPerMinute"

definition getDate :: "host \<Rightarrow> int \<Rightarrow> int" where
  "getDate h t = DateFromTime (hostLocalTime h t)"

text \<open>\<^verbatim>\<open>d.setDate(n)\<close>: the local year, month and time of day are kept.\<close>

definition setDate :: "host \<Rightarrow> int \<Rightarrow> int \<Rightarrow> int" where
  "setDate h t n =
     (let lt = hostLocalTime h t
      in hostUTC h (MakeDate (MakeDay (YearFromTime lt) (MonthFromTime lt) n) (TimeWithinDay lt)))"

text \<open>The local calendar day of the host: what its user calls today.\<close>

definition hostToday :: "host \<Rightarrow> int" where
  "hostToday h = Day (hostLocalTime h (currentTime h))"

text \<open>A clock, as a host whose offset never changes.\<close>

definition fixedHost :: "clock \<Rightarrow> host" where
  "fixedHost c =
     \<lparr>currentTime = now c, offsetAtUTC = (\<lambda>u. offsetMin c), offsetAtLocal = (\<lambda>l. offsetMin c)\<rparr>"

text \<open>
  A browser in the zone America/New_York during 2025, at the instant \<open>t\<close>: UTC-05:00,
  and UTC-04:00 from 9 March 2025, 07:00 UTC (02:00 local time, which becomes 03:00)
  until 2 November 2025, 06:00 UTC (02:00 local time, which becomes 01:00).
\<close>

definition newYork2025 :: "int \<Rightarrow> host" where
  "newYork2025 t =
     \<lparr>currentTime = t,
      offsetAtUTC = (\<lambda>u. if 1741503600000 \<le> u \<and> u < 1762063200000 then - 240 else - 300),
      offsetAtLocal = (\<lambda>l. if 1741489200000 \<le> l \<and> l < 1762048800000 then - 240 else - 300)\<rparr>"


section \<open>The legacy page script: input normalizer\<close>

text \<open>
  Field values are \<open>string\<close>s. \<open>toUpperCase\<close> is modelled on ASCII text, where it maps
  \<open>a..z\<close> to \<open>A..Z\<close> one character at a time and leaves every other character alone.
\<close>

definition toUpperChar :: "char \<Rightarrow> char" where
  "toUpperChar c =
     (if 97 \<le> (of_char c :: nat) \<and> (of_char c :: nat) \<le> 122
      then char_of ((of_char c :: nat) - 32) else c)"

definition toUpperCase :: "string \<Rightarrow> string" where
  "toUpperCase s = map toUpperChar s"

text \<open>The \<^verbatim>\<open>input\<close> listener of the origin and destination fields: the new field value.\<close>

definition airportInput :: "string \<Rightarrow> string" where
  "airportInput v =
     (let v1 = toUpperCase v
      in if length v1 > 3 then take 3 v1 else v1)"

section \<open>The legacy page script: search form validation\<close>

definition isUpperAZ :: "char \<Rightarrow> bool" where
  "isUpperAZ c = (65 \<le> (of_char c :: nat) \<and> (of_char c :: nat) \<le> 90)"

text \<open>\<^verbatim>\<open>/^[A-Z]{3}$/.test(code)\<close>\<close>

definition isValidAirportCode :: "string \<Rightarrow> bool" where
  "isValidAirportCode code = (length code = 3 \<and> list_all isUpperAZ code)"

definition isWhiteSpace :: "char \<Rightarrow> bool" where
  "isWhiteSpace c = ((of_char c :: nat) = 32 \<or> (9 \<le> (of_char c :: nat) \<and> (of_char c :: nat) \<le> 13))"

definition trim :: "string \<Rightarrow> string" where
  "trim s = rev (dropWhile isWhiteSpace (rev (dropWhile isWhiteSpace s)))"

text \<open>
  The three fields the submit handler reads. The date field is a date input: its value
  is the empty string (\<open>None\<close>) or a calendar date YYYY-MM-DD, held as its day number.
\<close>

record search_form =
  originField :: string
  destinationField :: string
  dateField :: "int option"

text \<open>The handler's two local variables \<^verbatim>\<open>isValid\<close> and \<^verbatim>\<open>errorMessage\<close>.\<close>

record verdict =
  isValid :: bool
  errorMessage :: string

definition msgOrigin :: string where
  "msgOrigin = ''Please enter a valid 3-letter origin airport code''"

definition msgDestination :: string where
  "msgDestination = ''Please enter a valid 3-letter destination airport code''"

definition msgSame :: string where
  "msgSame = ''Origin and destination cannot be the same''"

definition msgNoDate :: string where
  "msgNoDate = ''Please select a travel date''"

definition msgPast :: string where
  "msgPast = ''Travel date cannot be in the past''"

definition msgTooFar :: string where
  "msgTooFar = ''Travel date cannot be more than 1 year in the future''"

definition fail :: "string \<Rightarrow> verdict" where
  "fail m = \<lparr>isValid = False, errorMessage = m\<rparr>"

text \<open>The \<^verbatim>\<open>if / else if / else if\<close> chain under "Validate airport codes".\<close>

definition validateAirportCodes :: "string \<Rightarrow> string \<Rightarrow> verdict \<Rightarrow> verdict" where
  "validateAirportCodes origin destination v =
     (if length origin \<noteq> 3 \<or> \<not> isValidAirportCode origin then fail msgOrigin
      else if length destination \<noteq> 3 \<or> \<not> isValidAirportCode destination then fail msgDestination
      else if origin = destination then fail msgSame
      else v)"

definition selectedDate :: "int \<Rightarrow> int" where
  "selectedDate d = parseISODate d"

definition today :: "clock \<Rightarrow> int" where
  "today c = setHours0 c (now c)"

definition maxDate :: "clock \<Rightarrow> int" where
  "maxDate c = setFullYear c (now c) (getFullYear c (now c) + 1)"

text \<open>The separate \<^verbatim>\<open>if (!date) ... else ...\<close> statement under "Validate date": it
  runs whatever the airport checks found and assigns to the same two variables.\<close>

definition validateDate :: "clock \<Rightarrow> int option \<Rightarrow> verdict \<Rightarrow> verdict" where
  "validateDate c dt v =
     (case dt of
        None \<Rightarrow> fail msgNoDate
      | Some d \<Rightarrow>
          (let v1 = (if selectedDate d < today c then fail msgPast else v);
               v2 = (if selectedDate d > maxDate c then fail msgTooFar else v1)
           in v2))"

definition validateSearch :: "clock \<Rightarrow> search_form \<Rightarrow> verdict" where
  "validateSearch c f =
     (let origin = trim (originField f);
          destination = trim (destinationField f);
          v0 = \<lparr>isValid = True, errorMessage = []\<rparr>
      in validateDate c (dateField f) (validateAirportCodes origin destination v0))"

text \<open>
  What the submit listener does to the page: \<open>defaultPrevented\<close> is whether
  \<^verbatim>\<open>e.preventDefault()\<close> ran (the submission is cancelled), \<open>errorAlert\<close> is the text of
  the \<^verbatim>\<open>.search-form-error\<close> element (\<open>None\<close> while the element does not exist).
  \<^verbatim>\<open>showFormError\<close> creates the element once and sets its text to the message.
\<close>

record page =
  defaultPrevented :: bool
  errorAlert :: "string option"

definition showFormError :: "string \<Rightarrow> page \<Rightarrow> page" where
  "showFormError message p = p\<lparr>errorAlert := Some message\<rparr>"

definition onSubmit :: "clock \<Rightarrow> search_form \<Rightarrow> page \<Rightarrow> page" where
  "onSubmit c f p =
     (let v = validateSearch c f
      in if \<not> isValid v
         then showFormError (errorMessage v) (p\<lparr>defaultPrevented := True\<rparr>)
         else p)"

text \<open>A page on which no submission has been cancelled and no alert exists yet.\<close>

definition freshPage :: page where
  "freshPage = \<lparr>defaultPrevented = False, errorAlert = None\<rparr>"


section \<open>The flight service (mock search client)\<close>

record FlightSearchParams =
  origin :: string
  destination :: string
  departDate :: string
  returnDate :: string
  passengers :: "int option"

text \<open>
  \<open>date\<close> is the calendar date \<^verbatim>\<open>toISOString().split('T')[0]\<close> prints, held as its day
  number; \<open>price\<close> is a JavaScript number that is always a whole number here.
\<close>

record PriceTrendPoint =
  date :: int
  price :: int
  isLowestPrice :: bool

datatype insight_type = Good | Warning | Info

text \<open>\<open>icon\<close> is an emoji, held as its Unicode code points.\<close>

record PriceInsight =
  icon :: "nat list"
  title :: string
  description :: string
  type :: insight_type

record PriceData =
  insights :: "PriceInsight list"
  priceTrends :: "PriceTrendPoint list"

record response =
  success :: bool
  message :: string
  data :: PriceData

definition basePrice :: "nat \<Rightarrow> int" where
  "basePrice i =
     (let b0 = 280;
          b1 = (if i mod 3 = 0 then b0 - 20 else b0);
          b2 = (if i mod 7 = 0 then b1 - 30 else b1)
      in b2)"

text \<open>
  JavaScript numbers are IEEE 754 binary64 values. A non-negative one is held as a
  pair \<open>mant\<close>, \<open>expo\<close> standing for \<open>mant * 2 ^ expo\<close>, with \<open>0 \<le> mant < 2 ^ 53\<close> and
  \<open>- 1074 \<le> expo\<close>. \<open>isUnitDouble\<close> says that the pair is such a number below 1: a value
  \<^verbatim>\<open>Math.random()\<close> can return.
\<close>

record double =
  mant :: int
  expo :: int

definition isUnitDouble :: "double \<Rightarrow> bool" where
  "isUnitDouble d =
     (0 \<le> mant d \<and> mant d < 2 ^ 53 \<and> - 1074 \<le> expo d \<and> expo d \<le> 0
      \<and> mant d < 2 ^ nat (- expo d))"

text \<open>The number of low bits a natural number has beyond 53 significant bits.\<close>

fun excessBits :: "nat \<Rightarrow> nat" where
  "excessBits n = (if n < 2 ^ 53 then 0 else Suc (excessBits (n div 2)))"

declare excessBits.simps [simp del]

text \<open>
  The binary64 value nearest to \<open>n * 2 ^ e\<close> (\<open>0 \<le> n\<close>, \<open>- 1074 \<le> e\<close>), ties to the even
  significand: the \<open>s\<close> excess bits are cut off, and the significand goes up by one
  when the cut-off part is more than half a unit, or exactly half and the significand
  is odd.
\<close>

definition roundToDouble :: "int \<Rightarrow> int \<Rightarrow> double" where
  "roundToDouble n e =
     (let s = excessBits (nat n);
          q = n div 2 ^ s;
          r = n mod 2 ^ s;
          up = (2 * r > 2 ^ s \<or> (2 * r = 2 ^ s \<and> odd q))
      in \<lparr>mant = (if up then q + 1 else q), expo = e + int s\<rparr>)"

text \<open>\<^verbatim>\<open>d * k\<close> for a whole number \<open>k\<close>: the exact product, rounded once.\<close>

definition timesInt :: "double \<Rightarrow> int \<Rightarrow> double" where
  "timesInt d k = roundToDouble (mant d * k) (expo d)"

text \<open>\<^verbatim>\<open>Math.floor(d)\<close>, a whole number.\<close>

definition mathFloor :: "double \<Rightarrow> int" where
  "mathFloor d =
     (if 0 \<le> expo d then mant d * 2 ^ nat (expo d) else mant d div 2 ^ nat (- expo d))"

text \<open>\<open>r\<close> is the value \<^verbatim>\<open>Math.random()\<close> returned for this point; the sum of two
  whole numbers of this size is exact.\<close>

definition mockPrice :: "nat \<Rightarrow> double \<Rightarrow> int" where
  "mockPrice i r = basePrice i + mathFloor (timesInt r 50)"

text \<open>
  \<^verbatim>\<open>Array.from({ length: 14 }, (_, i) => ...)\<close>: the callback runs for \<open>i = 0, ..., 13\<close> in
  order, so the point of index \<open>i\<close> gets the \<open>i\<close>-th draw \<open>rnd i\<close> of the random source.
\<close>

definition getMockPriceTrends :: "host \<Rightarrow> (nat \<Rightarrow> double) \<Rightarrow> PriceTrendPoint list" where
  "getMockPriceTrends h rnd =
     map (\<lambda>i. \<lparr>date = toISODate (setDate h (currentTime h) (getDate h (currentTime h) + int i)),
               price = mockPrice i (rnd i),
               isLowestPrice = (i = 3)\<rparr>)
         [0..<14]"

text \<open>The icons are the characters the service's source file holds (not the emoji of
  the panel's defaults).\<close>

definition getMockInsights :: "PriceInsight list" where
  "getMockInsights =
     [\<lparr>icon = [0xF0, 0x178, 0x2019, 0xB8], title = ''Lowest Price'',
       description = ''Book on Saturday for the best deal at $260!'', type = Good\<rparr>,
      \<lparr>icon = [0xE2, 0x161, 0xA0, 0xEF, 0xB8], title = ''Price Trend'',
       description = ''Prices are expected to increase by 15% next week.'', type = Warning\<rparr>,
      \<lparr>icon = [0xF0, 0x178, 0x201D, 0xAE], title = ''Future Prediction'',
       description = ''Wait 3 days for a potential price drop.'', type = Info\<rparr>]"

text \<open>
  What the user and the developer console see, and the React state the search form and
  the query cache hold: \<open>toasts\<close> are the notifications shown to the user, \<open>console\<close>
  the console lines (not shown to the user), \<open>queryData\<close> the value cached under the
  key \<^verbatim>\<open>flightPriceData\<close> (\<open>None\<close> while nothing was stored).
\<close>

type_synonym error = string

datatype toast = ToastError string | ToastSuccess string

datatype console_line = ConsoleLog string FlightSearchParams | ConsoleError string error

record app =
  isSearching :: bool
  toasts :: "toast list"
  console :: "console_line list"
  queryData :: "PriceData option"

text \<open>
  \<^verbatim>\<open>FlightService.searchFlights\<close>. The body of its \<^verbatim>\<open>try\<close> block logs, awaits the
  simulated call and returns the mock data. \<open>outage\<close> is an error thrown by the awaited
  call, the place where the network request will stand; the code as it is never throws
  there, which is \<open>outage = None\<close>. The result is \<open>Inl\<close> of the error the method
  re-throws, or \<open>Inr\<close> of the value it returns.
\<close>

definition searchFlights ::
  "host \<Rightarrow> (nat \<Rightarrow> double) \<Rightarrow> error option \<Rightarrow> FlightSearchParams \<Rightarrow> app \<Rightarrow> (error + response) \<times> app" where
  "searchFlights h rnd outage params s =
     (let s1 = s\<lparr>console := console s @ [ConsoleLog ''Searching flights with params:'' params]\<rparr>
      in case outage of
           None \<Rightarrow>
             (Inr \<lparr>success = True, message = ''Flight search successful'',
                   data = \<lparr>insights = getMockInsights,
                           priceTrends = getMockPriceTrends h rnd\<rparr>\<rparr>,
              s1)
         | Some err \<Rightarrow>
             (Inl err,
              s1\<lparr>console := console s1 @ [ConsoleError ''Error searching flights:'' err],
                 toasts := toasts s1 @ [ToastError ''Failed to search flights. Please try again.'']\<rparr>))"

section \<open>The React search form\<close>

text \<open>The five pieces of component state the form's inputs write.\<close>

record search_fields =
  originInput :: string
  destinationInput :: string
  departDateInput :: string
  returnDateInput :: string
  passengersInput :: string

definition isDigit :: "char \<Rightarrow> bool" where
  "isDigit c = (48 \<le> (of_char c :: nat) \<and> (of_char c :: nat) \<le> 57)"

definition digitsValue :: "string \<Rightarrow> int" where
  "digitsValue ds = foldl (\<lambda>a c. 10 * a + (int (of_char c) - 48)) 0 ds"

text \<open>\<^verbatim>\<open>parseInt(s, 10)\<close>: leading white space, an optional sign, then the longest run of
  decimal digits; \<open>None\<close> is \<^verbatim>\<open>NaN\<close> (no digit found).\<close>

definition parseInt10 :: "string \<Rightarrow> int option" where
  "parseInt10 s =
     (let s1 = dropWhile isWhiteSpace s;
          neg = (s1 \<noteq> [] \<and> hd s1 = CHR ''-'');
          s2 = (if s1 \<noteq> [] \<and> (hd s1 = CHR ''-'' \<or> hd s1 = CHR ''+'') then tl s1 else s1);
          ds = takeWhile isDigit s2
      in if ds = [] then None
         else Some (if neg then - digitsValue ds else digitsValue ds))"

text \<open>
  \<^verbatim>\<open>handleSearch\<close>: the first \<^verbatim>\<open>if\<close> returns early; otherwise the \<^verbatim>\<open>try\<close> block runs,
  its \<^verbatim>\<open>catch\<close> only writes to the console, and \<^verbatim>\<open>finally\<close> clears the flag. No path
  of the handler throws, so its result is the new state alone.
\<close>

definition handleSearch ::
  "host \<Rightarrow> (nat \<Rightarrow> double) \<Rightarrow> error option \<Rightarrow> search_fields \<Rightarrow> app \<Rightarrow> app" where
  "handleSearch h rnd outage f s =
     (if originInput f = [] \<or> destinationInput f = [] \<or> departDateInput f = []
         \<or> returnDateInput f = []
      then s\<lparr>toasts := toasts s @ [ToastError ''Please fill in all required fields'']\<rparr>
      else
        (let s1 = s\<lparr>isSearching := True\<rparr>;
             searchParams = \<lparr>origin = originInput f, destination = destinationInput f,
                             departDate = departDateInput f, returnDate = returnDateInput f,
                             passengers = parseInt10 (passengersInput f)\<rparr>;
             (result, s2) = searchFlights h rnd outage searchParams s1;
             s3 = (case result of
                     Inr r \<Rightarrow>
                       s2\<lparr>queryData := Some (data r),
                          toasts := toasts s2 @ [ToastSuccess ''Flight prices analyzed successfully!'']\<rparr>
                   | Inl err \<Rightarrow>
                       s2\<lparr>console := console s2 @ [ConsoleError ''Error during flight search:'' err]\<rparr>)
         in s3\<lparr>isSearching := False\<rparr>))"

text \<open>The state of the page before any search.\<close>

definition initialApp :: app where
  "initialApp = \<lparr>isSearching = False, toasts = [], console = [], queryData = None\<rparr>"

section \<open>The price analysis panel\<close>

definition defaultInsights :: "PriceInsight list" where
  "defaultInsights =
     [\<lparr>icon = [0x1F4B8], title = ''Lowest Price'',
       description = ''Book on Saturday for the best deal at $260!'', type = Good\<rparr>,
      \<lparr>icon = [0x26A0, 0xFE0F], title = ''Price Trend'',
       description = ''Prices are expected to increase by 15% next week.'', type = Warning\<rparr>,
      \<lparr>icon = [0x1F52E], title = ''Future Prediction'',
       description = ''Wait 3 days for a potential price drop.'', type = Info\<rparr>]"

text \<open>
  \<^verbatim>\<open>priceData?.insights || [ ...defaults ]\<close>: \<open>priceData\<close> is \<^verbatim>\<open>undefined\<close> (\<open>None\<close>) until a
  search stores a result. \<^verbatim>\<open>||\<close> takes its right operand only when the left one is
  falsy, and every array, the empty one too, is truthy in JavaScript.
\<close>

definition panelInsights :: "PriceData option \<Rightarrow> PriceInsight list" where
  "panelInsights priceData =
     (case priceData of None \<Rightarrow> defaultInsights | Some d \<Rightarrow> insights d)"

text \<open>\<^verbatim>\<open>priceData?.priceTrends || []\<close>\<close>

definition panelTrends :: "PriceData option \<Rightarrow> PriceTrendPoint list" where
  "panelTrends priceData =
     (case priceData of None \<Rightarrow> [] | Some d \<Rightarrow> priceTrends d)"

definition badgeLabel :: "insight_type \<Rightarrow> string" where
  "badgeLabel t =
     (if t = Good then ''Good Deal'' else if t = Warning then ''Act Soon'' else ''AI Prediction'')"

text \<open>One rendered insight: icon, title, badge label and description.\<close>

record insight_card =
  cardIcon :: "nat list"
  cardTitle :: string
  cardBadge :: string
  cardText :: string

definition renderInsight :: "PriceInsight \<Rightarrow> insight_card" where
  "renderInsight i =
     \<lparr>cardIcon = icon i, cardTitle = title i, cardBadge = badgeLabel (type i),
      cardText = description i\<rparr>"

text \<open>The cards \<^verbatim>\<open>PriceAnalysis\<close> renders: \<^verbatim>\<open>insights.map(...)\<close>.\<close>

definition PriceAnalysis :: "PriceData option \<Rightarrow> insight_card list" where
  "PriceAnalysis priceData = map renderInsight (panelInsights priceData)"

text \<open>\<^verbatim>\<open>PriceChart\<close>'s data: the sample series stands in when the series is empty.\<close>

definition sampleTrends :: "PriceTrendPoint list" where
  "sampleTrends =
     [\<lparr>date = 20209, price = 340, isLowestPrice = False\<rparr>,
      \<lparr>date = 20210, price = 320, isLowestPrice = False\<rparr>,
      \<lparr>date = 20211, price = 300, isLowestPrice = False\<rparr>,
      \<lparr>date = 20212, price = 260, isLowestPrice = True\<rparr>,
      \<lparr>date = 20213, price = 280, isLowestPrice = False\<rparr>,
      \<lparr>date = 20214, price = 310, isLowestPrice = False\<rparr>,
      \<lparr>date = 20215, price = 290, isLowestPrice = False\<rparr>]"

definition chartData :: "PriceTrendPoint list \<Rightarrow> PriceTrendPoint list" where
  "chartData pts = (if length pts > 0 then pts else sampleTrends)"


section \<open>The specification's reading, for comparison\<close>

text \<open>
  The calendar day one year after day \<open>d\<close>: same month and day of month in the next
  year, computed as \<^verbatim>\<open>setFullYear\<close> does (29 February becomes 1 March).
\<close>

definition oneYearLater :: "int \<Rightarrow> int" where
  "oneYearLater d =
     (let t = MakeDate d 0
      in MakeDay (YearFromTime t + 1) (MonthFromTime t) (DateFromTime t))"

text \<open>
  The specification's rule order for the legacy form, over the same six checks the
  code makes: origin shape, destination shape, inequality, date presence, date not in
  the past, date not more than a year ahead; the first failing rule gives the message.
\<close>

definition firstFailingRule :: "clock \<Rightarrow> search_form \<Rightarrow> string option" where
  "firstFailingRule c f =
     (let origin = trim (originField f);
          destination = trim (destinationField f)
      in if length origin \<noteq> 3 \<or> \<not> isValidAirportCode origin then Some msgOrigin
         else if length destination \<noteq> 3 \<or> \<not> isValidAirportCode destination then Some msgDestination
         else if origin = destination then Some msgSame
         else (case dateField f of
                 None \<Rightarrow> Some msgNoDate
               | Some d \<Rightarrow>
                   if selectedDate d < today c then Some msgPast
                   else if selectedDate d > maxDate c then Some msgTooFar
                   else None))"

section \<open>Facts about the Date arithmetic\<close>

lemma div_succ_int:
  fixes a k :: int
  assumes "0 < k"
  shows "(a + 1) div k = a div k + (if (a + 1) mod k = 0 then 1 else 0)"
proof -
  define r where "r = a mod k + 1"
  have "a mod k < k" "0 \<le> a mod k" using assms by simp_all
  then have r: "1 \<le> r" "r \<le> k" by (simp_all add: r_def)
  have s: "a + 1 = r + (a div k) * k" by (simp add: r_def)
  have d: "(a + 1) div k = a div k + r div k"
    unfolding s using assms by (simp only: div_mult_self1)
  have m: "(a + 1) mod k = r mod k"
    unfolding s by (simp only: mod_mult_self1)
  show ?thesis
  proof (cases "r = k")
    case True
    with d m assms show ?thesis by simp
  next
    case False
    with r have "r < k" by simp
    with r d m show ?thesis by simp
  qed
qed


lemma mod_shift_iff:
  fixes y :: int
  shows "(y - k * q + 1 - 1) mod k = 0 \<longleftrightarrow> y mod k = 0"
proof -
  have "y - k * q + 1 - 1 = y + k * (- q)" by simp
  then show ?thesis by (simp only: mod_mult_self2)
qed

lemma DayFromYear_step:
  "DayFromYear (y + 1) - DayFromYear y = (if InLeapYear y then 366 else 365)"
proof -
  have a: "(y + 1 - 1969) div 4 = (y - 1969) div 4 + (if y mod 4 = 0 then 1 else 0)"
  proof -
    have "(y - 1969 + 1) mod 4 = 0 \<longleftrightarrow> y mod 4 = 0"
      using mod_shift_iff[of y 4 492] by simp
    with div_succ_int[of 4 "y - 1969"] show ?thesis by (simp add: algebra_simps)
  qed
  have b: "(y + 1 - 1901) div 100 = (y - 1901) div 100 + (if y mod 100 = 0 then 1 else 0)"
  proof -
    have "(y - 1901 + 1) mod 100 = 0 \<longleftrightarrow> y mod 100 = 0"
      using mod_shift_iff[of y 100 19] by simp
    with div_succ_int[of 100 "y - 1901"] show ?thesis by (simp add: algebra_simps)
  qed
  have c: "(y + 1 - 1601) div 400 = (y - 1601) div 400 + (if y mod 400 = 0 then 1 else 0)"
  proof -
    have "(y - 1601 + 1) mod 400 = 0 \<longleftrightarrow> y mod 400 = 0"
      using mod_shift_iff[of y 400 4] by simp
    with div_succ_int[of 400 "y - 1601"] show ?thesis by (simp add: algebra_simps)
  qed
  have d: "y mod 400 = 0 \<Longrightarrow> y mod 100 = 0"
  proof -
    assume "y mod 400 = 0"
    then have "400 dvd y" by (simp add: mod_eq_0_iff_dvd)
    moreover have "(100::int) dvd 400" by simp
    ultimately have "100 dvd y" by (rule dvd_trans[rotated])
    then show ?thesis by (simp add: mod_eq_0_iff_dvd)
  qed
  have e: "y mod 100 = 0 \<Longrightarrow> y mod 4 = 0"
  proof -
    assume "y mod 100 = 0"
    then have "100 dvd y" by (simp add: mod_eq_0_iff_dvd)
    moreover have "(4::int) dvd 100" by simp
    ultimately have "4 dvd y" by (rule dvd_trans[rotated])
    then show ?thesis by (simp add: mod_eq_0_iff_dvd)
  qed
  define A B C where "A = (y - 1969) div 4" and "B = (y - 1901) div 100" and "C = (y - 1601) div 400"
  define A' B' C' where "A' = (y + 1 - 1969) div 4" and "B' = (y + 1 - 1901) div 100"
    and "C' = (y + 1 - 1601) div 400"
  have s0: "DayFromYear y = 365 * (y - 1970) + A - B + C"
    by (simp only: DayFromYear_def A_def B_def C_def)
  have s1: "DayFromYear (y + 1) = 365 * (y + 1 - 1970) + A' - B' + C'"
    by (simp only: DayFromYear_def A'_def B'_def C'_def)
  have a': "A' = A + (if y mod 4 = 0 then 1 else 0)" using a by (simp only: A_def A'_def)
  have b': "B' = B + (if y mod 100 = 0 then 1 else 0)" using b by (simp only: B_def B'_def)
  have c': "C' = C + (if y mod 400 = 0 then 1 else 0)" using c by (simp only: C_def C'_def)
  have diff: "DayFromYear (y + 1) - DayFromYear y = 365 + (A' - A) - (B' - B) + (C' - C)"
    unfolding s0 s1 by (simp add: algebra_simps)
  show ?thesis
  proof (cases "y mod 4 = 0")
    case False
    have n100: "y mod 100 \<noteq> 0"
    proof
      assume "y mod 100 = 0"
      then have "y mod 4 = 0" by (rule e)
      with False show "False" by simp
    qed
    have n400: "y mod 400 \<noteq> 0"
    proof
      assume "y mod 400 = 0"
      then have "y mod 100 = 0" by (rule d)
      with n100 show "False" by simp
    qed
    note n100 n400
    with False a' b' c' diff show ?thesis by (simp add: InLeapYear_def)
  next
    case y4: True
    show ?thesis
    proof (cases "y mod 100 = 0")
      case False
      have "y mod 400 \<noteq> 0"
      proof
        assume "y mod 400 = 0"
        then have "y mod 100 = 0" by (rule d)
        with False show "False" by simp
      qed
      with False y4 a' b' c' diff show ?thesis by (simp add: InLeapYear_def)
    next
      case y100: True
      show ?thesis
      proof (cases "y mod 400 = 0")
        case True
        with y4 y100 a' b' c' diff show ?thesis by (simp add: InLeapYear_def)
      next
        case False
        with y4 y100 a' b' c' diff show ?thesis by (simp add: InLeapYear_def)
      qed
    qed
  qed
qed

lemma MonthFromDayInYear_range:
  "0 \<le> MonthFromDayInYear l n \<and> MonthFromDayInYear l n \<le> 11"
  by (simp add: MonthFromDayInYear_def Let_def)

lemma monthStart_leap_shift:
  "monthStart a m - monthStart b m \<le> 1 \<and> -1 \<le> monthStart a m - monthStart b m"
  by (simp add: monthStart_def Let_def)

lemma MakeDay_same_month:
  "0 \<le> m \<Longrightarrow> m \<le> 11 \<Longrightarrow> MakeDay y m d = DayFromYear y + monthStart (InLeapYear y) m + d - 1"
  by (simp add: MakeDay_def Let_def)

lemma MonthFromTime_range: "0 \<le> MonthFromTime t \<and> MonthFromTime t \<le> 11"
  using MonthFromDayInYear_range[of "InLeapYear (YearFromTime t)" "DayWithinYear t"]
  by (simp only: MonthFromTime_def)

lemma MakeDay_roundtrip:
  "MakeDay (YearFromTime t) (MonthFromTime t) (DateFromTime t + k) = Day t + k"
  using MonthFromTime_range[of t]
  by (simp add: MakeDay_same_month DateFromTime_def DayWithinYear_def)

lemma MakeDay_next_year:
  "Day t + 364 \<le> MakeDay (YearFromTime t + 1) (MonthFromTime t) (DateFromTime t) \<and>
   MakeDay (YearFromTime t + 1) (MonthFromTime t) (DateFromTime t) \<le> Day t + 367"
proof -
  let ?y = "YearFromTime t" and ?m = "MonthFromTime t"
  have eq: "MakeDay (?y + 1) ?m (DateFromTime t) =
      Day t + (DayFromYear (?y + 1) - DayFromYear ?y)
            + (monthStart (InLeapYear (?y + 1)) ?m - monthStart (InLeapYear ?y) ?m)"
    using MonthFromTime_range[of t]
    by (simp add: MakeDay_same_month DateFromTime_def DayWithinYear_def)
  have s: "365 \<le> DayFromYear (?y + 1) - DayFromYear ?y \<and> DayFromYear (?y + 1) - DayFromYear ?y \<le> 366"
    by (simp only: DayFromYear_step) simp
  from eq s monthStart_leap_shift[of "InLeapYear (?y + 1)" ?m "InLeapYear ?y"]
  show ?thesis by linarith
qed

lemma TimeWithinDay_range: "0 \<le> TimeWithinDay t \<and> TimeWithinDay t < msPerDay"
  by (simp add: TimeWithinDay_def msPerDay_def)

lemma Day_split: "Day t * msPerDay + TimeWithinDay t = t"
  by (simp add: Day_def TimeWithinDay_def)

lemma today_eq: "today c = localToday c * msPerDay - offsetMin c * msPerMinute"
  by (simp add: today_def setHours0_def UTC_def MakeDate_def localToday_def)

lemma now_split:
  "now c = localToday c * msPerDay + TimeWithinDay (LocalTime c (now c)) - offsetMin c * msPerMinute"
  using Day_split[of "LocalTime c (now c)"] by (simp add: localToday_def LocalTime_def)

lemma maxDate_eq:
  "maxDate c =
     MakeDay (YearFromTime (LocalTime c (now c)) + 1) (MonthFromTime (LocalTime c (now c)))
             (DateFromTime (LocalTime c (now c))) * msPerDay
     + TimeWithinDay (LocalTime c (now c)) - offsetMin c * msPerMinute"
  by (simp add: maxDate_def setFullYear_def getFullYear_def Let_def UTC_def MakeDate_def)

lemma maxDate_bounds:
  "now c + 364 * msPerDay \<le> maxDate c \<and> maxDate c \<le> now c + 367 * msPerDay"
proof -
  let ?lt = "LocalTime c (now c)"
  let ?P = "MakeDay (YearFromTime ?lt + 1) (MonthFromTime ?lt) (DateFromTime ?lt)"
  have "localToday c + 364 \<le> ?P" "?P \<le> localToday c + 367"
    using MakeDay_next_year[of ?lt] by (simp_all add: localToday_def)
  then have "(localToday c + 364) * msPerDay \<le> ?P * msPerDay" "?P * msPerDay \<le> (localToday c + 367) * msPerDay"
    by (simp_all add: msPerDay_def)
  then show ?thesis
    unfolding maxDate_eq using now_split[of c] by (simp add: algebra_simps)
qed

lemma setDate_fixed:
  "setDate (fixedHost c) t (getDate (fixedHost c) t + k) = t + k * msPerDay"
proof -
  let ?lt = "t + offsetMin c * msPerMinute"
  have "setDate (fixedHost c) t (getDate (fixedHost c) t + k) =
          (Day ?lt + k) * msPerDay + TimeWithinDay ?lt - offsetMin c * msPerMinute"
    by (simp add: setDate_def getDate_def Let_def MakeDay_roundtrip hostUTC_def hostLocalTime_def
        fixedHost_def MakeDate_def)
  also have "\<dots> = (Day ?lt * msPerDay + TimeWithinDay ?lt) + k * msPerDay - offsetMin c * msPerMinute"
    by (simp add: algebra_simps)
  also have "\<dots> = t + k * msPerDay"
    by (simp add: Day_split)
  finally show ?thesis .
qed

lemma currentTime_fixedHost: "currentTime (fixedHost c) = now c"
  by (simp add: fixedHost_def)

lemma trend_date_fixed:
  "toISODate (setDate (fixedHost c) (now c) (getDate (fixedHost c) (now c) + int i)) =
     toISODate (now c) + int i"
  by (simp add: setDate_fixed toISODate_def Day_def msPerDay_def)

section \<open>The mock price series\<close>

lemma upt14: "[0..<14] = [0,1,2,3,4,5,6,7,8,9,10,11,12,13::nat]"
  by code_simp

lemma basePrice_range: "230 \<le> basePrice i \<and> basePrice i \<le> 280"
  by (simp add: basePrice_def Let_def)

lemma excessBits_small: "n < 2 ^ 53 \<Longrightarrow> excessBits n = 0"
  by (subst excessBits.simps) simp

lemma excessBits_large: "\<not> n < 2 ^ 53 \<Longrightarrow> excessBits n = Suc (excessBits (n div 2))"
  by (subst excessBits.simps) simp

lemmas double_eval =
  mockPrice_def basePrice_def timesInt_def roundToDouble_def mathFloor_def Let_def
  excessBits_small excessBits_large

lemma excessBits_bound: "n < 2 ^ 53 * 2 ^ j \<Longrightarrow> excessBits n \<le> j"
proof (induction j arbitrary: n)
  case 0
  then have "n < 2 ^ 53" by simp
  then show ?case by (simp add: excessBits_small)
next
  case (Suc j)
  show ?case
  proof (cases "n < 2 ^ 53")
    case True
    then show ?thesis by (simp add: excessBits_small)
  next
    case False
    define k :: nat where "k = 2 ^ 53 * 2 ^ j"
    have "(2::nat) ^ 53 * 2 ^ Suc j = 2 * k" by (simp add: k_def)
    with Suc.prems have "n < 2 * k" by (simp only:)
    then have "n div 2 < k" by linarith
    then have "excessBits (n div 2) \<le> j" unfolding k_def by (rule Suc.IH)
    with False show ?thesis by (simp add: excessBits_large)
  qed
qed

lemma int_div_less:
  fixes a b c :: int
  assumes "0 < b" and "a < c * b"
  shows "a div b < c"
proof -
  have "a = (a div b) * b + a mod b" by simp
  moreover have "0 \<le> a mod b" using assms(1) by simp
  ultimately have "(a div b) * b \<le> a" by linarith
  with assms(2) have "(a div b) * b < c * b" by linarith
  with assms(1) show ?thesis by (simp only: mult_less_cancel_right_pos)
qed

lemma round_up_bound:
  fixes n :: int
  assumes "0 \<le> n"
  shows "0 \<le> mant (roundToDouble n e) \<and>
         2 * (mant (roundToDouble n e) * 2 ^ excessBits (nat n)) \<le> 2 * n + 2 ^ excessBits (nat n)
         \<and> expo (roundToDouble n e) = e + int (excessBits (nat n))"
proof -
  define P :: int where "P = 2 ^ excessBits (nat n)"
  define q r where "q = n div P" and "r = n mod P"
  have P: "0 < P" by (simp add: P_def)
  have n: "n = q * P + r" by (simp add: q_def r_def)
  have r: "0 \<le> r" "r < P" using P by (simp_all add: r_def)
  have q: "0 \<le> q" using assms P by (simp add: q_def pos_imp_zdiv_nonneg_iff)
  have m: "mant (roundToDouble n e) = (if 2 * r > P \<or> (2 * r = P \<and> odd q) then q + 1 else q)"
    by (simp add: roundToDouble_def Let_def P_def q_def r_def)
  have x: "expo (roundToDouble n e) = e + int (excessBits (nat n))"
    by (simp add: roundToDouble_def Let_def)
  show ?thesis
  proof (cases "2 * r > P \<or> (2 * r = P \<and> odd q)")
    case True
    then have "mant (roundToDouble n e) = q + 1" using m by simp
    moreover have "2 * ((q + 1) * P) \<le> 2 * n + P"
    proof -
      have "P \<le> 2 * r" using True by auto
      moreover have "(q + 1) * P = n - r + P" using n by (simp add: algebra_simps)
      ultimately show ?thesis by linarith
    qed
    ultimately show ?thesis using q x by (simp add: P_def)
  next
    case False
    then have "mant (roundToDouble n e) = q" using m by simp
    moreover have "2 * (q * P) \<le> 2 * n + P" using n r P by linarith
    ultimately show ?thesis using q x by (simp add: P_def)
  qed
qed

lemma floor_times50:
  assumes "isUnitDouble d"
  shows "0 \<le> mathFloor (timesInt d 50) \<and> mathFloor (timesInt d 50) \<le> 49"
proof -
  define m e where "m = mant d" and "e = expo d"
  define k where "k = nat (- e)"
  define K :: int where "K = 2 ^ k"
  define s where "s = excessBits (nat (m * 50))"
  define P :: int where "P = 2 ^ s"
  define R where "R = roundToDouble (m * 50) e"
  have d: "0 \<le> m" "m < 2 ^ 53" "e \<le> 0" "m < K"
    using assms by (simp_all add: isUnitDouble_def m_def e_def k_def K_def)
  have ek: "e = - int k" using d(3) by (simp add: k_def)
  have "nat (m * 50) < 2 ^ 53 * 2 ^ 6"
  proof -
    have "m * 50 < 2 ^ 53 * 2 ^ 6" using d by simp
    then show ?thesis using d(1) by (simp add: nat_less_iff)
  qed
  then have s6: "s \<le> 6" unfolding s_def by (rule excessBits_bound)
  have "P \<le> 2 ^ 6" unfolding P_def using s6 by (intro power_increasing) simp_all
  then have P64: "P \<le> 64" by simp
  have P0: "0 < P" by (simp add: P_def)
  have K0: "0 < K" by (simp add: K_def)
  have rb: "0 \<le> mant R" "2 * (mant R * P) \<le> 2 * (m * 50) + P" "expo R = e + int s"
    using round_up_bound[of "m * 50" e] d(1) by (simp_all add: R_def P_def s_def)
  have "m + 1 \<le> K" using d(4) by simp
  then have "2 * (m * 50) + 100 \<le> 100 * K" by linarith
  with rb(2) P64 have lt: "mant R * P < 50 * K" by linarith
  have T: "timesInt d 50 = R" by (simp add: timesInt_def R_def m_def e_def)
  show ?thesis
  proof (cases "0 \<le> e + int s")
    case True
    then have ks: "k \<le> s" using ek by simp
    then have "s = (s - k) + k" by simp
    then have "(2::int) ^ s = 2 ^ (s - k) * 2 ^ k" by (metis power_add)
    then have Ps: "P = 2 ^ (s - k) * K" by (simp only: P_def K_def)
    have f: "mathFloor R = mant R * 2 ^ (s - k)"
      using True rb(3) ek ks by (simp add: mathFloor_def nat_diff_distrib' )
    have "(mant R * 2 ^ (s - k)) * K < 50 * K" using lt Ps by (simp add: mult.assoc)
    then have "mant R * 2 ^ (s - k) < 50" using K0 by simp
    moreover have "0 \<le> mant R * (2::int) ^ (s - k)" using rb(1) by simp
    ultimately show ?thesis using f T by simp
  next
    case False
    then have ks: "s < k" using ek by simp
    then have "k = (k - s) + s" by simp
    then have "(2::int) ^ k = 2 ^ (k - s) * 2 ^ s" by (metis power_add)
    then have Ks: "K = 2 ^ (k - s) * P" by (simp only: P_def K_def)
    have f: "mathFloor R = mant R div 2 ^ (k - s)"
      using False rb(3) ek ks by (simp add: mathFloor_def nat_diff_distrib')
    have "mant R * P < (50 * 2 ^ (k - s)) * P" using lt Ks by (simp add: mult.assoc)
    then have "mant R < 50 * 2 ^ (k - s)" using P0 by simp
    then have "mant R div 2 ^ (k - s) < 50"
      by (intro int_div_less) simp_all
    moreover have "0 \<le> mant R div (2::int) ^ (k - s)" using rb(1) by (simp add: pos_imp_zdiv_nonneg_iff)
    ultimately show ?thesis using f T by simp
  qed
qed

lemma trends_length: "length (getMockPriceTrends c rnd) = 14"
  by (simp add: getMockPriceTrends_def)

lemma trends_nth:
  "i < 14 \<Longrightarrow> getMockPriceTrends h rnd ! i =
     \<lparr>date = toISODate (setDate h (currentTime h) (getDate h (currentTime h) + int i)),
      price = mockPrice i (rnd i), isLowestPrice = (i = 3)\<rparr>"
  by (simp add: getMockPriceTrends_def)

text \<open>
  The product is rounded before it is floored. For the draw 0.06 (the binary64 value
  nearest to it) the exact product is just below 3 and floors to 2, the rounded product
  is 3, and the price of point 0 is 233.
\<close>

lemma mock_price_rounds_the_product:
  "isUnitDouble \<lparr>mant = 1080863910568919, expo = - 54\<rparr>
   \<and> (1080863910568919 * 50) div 2 ^ 54 = (2::int)
   \<and> mathFloor (timesInt \<lparr>mant = 1080863910568919, expo = - 54\<rparr> 50) = 3
   \<and> mockPrice 0 \<lparr>mant = 1080863910568919, expo = - 54\<rparr> = 233"
  by (simp add: double_eval isUnitDouble_def)

text \<open>
  Claim C9. Every price of the 14-point series is a non-negative number: for every day
  index \<open>i\<close> in 0..13 and every value of the random draw in [0, 1) (every binary64
  number \<^verbatim>\<open>Math.random()\<close> can return), the price of point \<open>i\<close> is \<open>mockPrice i\<close> of that
  draw and lies between 230 and 329 inclusive.
\<close>

theorem mock_price_range:
  "i < 14 \<Longrightarrow> isUnitDouble (rnd i) \<Longrightarrow>
     price (getMockPriceTrends c rnd ! i) = mockPrice i (rnd i)
     \<and> 230 \<le> price (getMockPriceTrends c rnd ! i)
     \<and> price (getMockPriceTrends c rnd ! i) \<le> 329"
proof -
  assume i: "i < 14" and r: "isUnitDouble (rnd i)"
  have p: "price (getMockPriceTrends c rnd ! i) = mockPrice i (rnd i)"
    using i by (simp add: trends_nth)
  have f: "0 \<le> mathFloor (timesInt (rnd i) 50) \<and> mathFloor (timesInt (rnd i) 50) \<le> 49"
    using r by (rule floor_times50)
  have "230 \<le> mockPrice i (rnd i) \<and> mockPrice i (rnd i) \<le> 329"
    unfolding mockPrice_def using basePrice_range[of i] f by linarith
  with p show ?thesis by simp
qed

text \<open>With the draw 0.5, point 0 costs 230 + 25.\<close>

theorem mock_price_range_witness:
  "isUnitDouble \<lparr>mant = 1, expo = - 1\<rparr>
   \<and> price (getMockPriceTrends (fixedHost \<lparr>now = 0, offsetMin = 0\<rparr>)
        (\<lambda>_. \<lparr>mant = 1, expo = - 1\<rparr>) ! 0) = 255"
proof -
  have u: "isUnitDouble \<lparr>mant = 1, expo = - 1\<rparr>" by code_simp
  have m: "mockPrice 0 \<lparr>mant = 1, expo = - 1\<rparr> = 255" by (simp add: double_eval)
  from u m mock_price_range[of 0 "\<lambda>_. \<lparr>mant = 1, expo = - 1\<rparr>"
      "fixedHost \<lparr>now = 0, offsetMin = 0\<rparr>"]
  show ?thesis by simp
qed

section \<open>The airport code normalizer\<close>

lemma toUpperChar_idem: "toUpperChar (toUpperChar c) = toUpperChar c"
proof (cases "97 \<le> (of_char c :: nat) \<and> (of_char c :: nat) \<le> 122")
  case True
  define u where "u = char_of ((of_char c :: nat) - 32)"
  have "(of_char c :: nat) - 32 < 256" using True by linarith
  then have "(of_char u :: nat) = of_char c - 32"
    by (simp add: u_def of_char_of)
  then have "\<not> (97 \<le> (of_char u :: nat) \<and> (of_char u :: nat) \<le> 122)"
    using True by linarith
  then have "toUpperChar u = u" unfolding toUpperChar_def by (rule if_not_P)
  moreover have "toUpperChar c = u" using True by (simp add: toUpperChar_def u_def)
  ultimately show ?thesis by simp
next
  case False
  then have "toUpperChar c = c" unfolding toUpperChar_def by (rule if_not_P)
  then show ?thesis by simp
qed

lemma toUpperChar_upper: "isUpperAZ c \<Longrightarrow> toUpperChar c = c"
proof -
  assume "isUpperAZ c"
  then have "\<not> (97 \<le> (of_char c :: nat) \<and> (of_char c :: nat) \<le> 122)"
    unfolding isUpperAZ_def by linarith
  then show ?thesis unfolding toUpperChar_def by (rule if_not_P)
qed

lemma airportInput_eq: "airportInput s = take 3 (toUpperCase s)"
  by (simp add: airportInput_def Let_def)

lemma toUpperCase_valid: "list_all isUpperAZ s \<Longrightarrow> toUpperCase s = s"
  by (induction s) (simp_all add: toUpperCase_def toUpperChar_upper)

text \<open>
  Claim C8. The normalizer is the upper-cased input cut to its first three characters;
  applying it twice is applying it once; a code that already has the shape
  \<^verbatim>\<open>[A-Z]{3}\<close> is returned unchanged; "jfk" becomes "JFK" and "laxx" becomes "LAX".
\<close>

theorem airportInput_uppercase_truncate:
  "airportInput s = take 3 (toUpperCase s)
   \<and> airportInput (airportInput s) = airportInput s
   \<and> (isValidAirportCode s \<longrightarrow> airportInput s = s)
   \<and> airportInput ''jfk'' = ''JFK''
   \<and> airportInput ''laxx'' = ''LAX''"
proof -
  have idem: "airportInput (airportInput s) = airportInput s"
    by (simp add: airportInput_eq toUpperCase_def take_map toUpperChar_idem)
  have valid: "isValidAirportCode s \<longrightarrow> airportInput s = s"
    by (simp add: airportInput_eq isValidAirportCode_def toUpperCase_valid)
  have ex1: "airportInput ''jfk'' = ''JFK''" by code_simp
  have ex2: "airportInput ''laxx'' = ''LAX''" by code_simp
  from airportInput_eq idem valid ex1 ex2 show ?thesis by blast
qed

theorem airportInput_uppercase_truncate_witness:
  "isValidAirportCode ''JFK'' \<and> airportInput ''JFK'' = ''JFK''"
proof -
  have v: "isValidAirportCode ''JFK''" by code_simp
  with airportInput_uppercase_truncate[of "''JFK''"] show ?thesis by blast
qed


section \<open>The mock search client\<close>

lemma search_result_sizes:
  "\<exists>r s'. searchFlights h rnd None params s = (Inr r, s')
     \<and> length (priceTrends (data r)) = 14
     \<and> length (insights (data r)) = 3
     \<and> map type (insights (data r)) = [Good, Warning, Info]"
  by (simp add: searchFlights_def Let_def trends_length getMockInsights_def)

text \<open>
  In a zone whose offset never changes, point \<open>i\<close> is dated \<open>i\<close> days after the UTC
  calendar day of the current instant, so the dates increase strictly.
\<close>

lemma fixed_zone_series:
  "map date (getMockPriceTrends (fixedHost c) rnd) = map (\<lambda>i. toISODate (now c) + int i) [0..<14]
   \<and> sorted_wrt (<) (map date (getMockPriceTrends (fixedHost c) rnd))"
proof -
  have d: "map date (getMockPriceTrends (fixedHost c) rnd) =
             map (\<lambda>i. toISODate (now c) + int i) [0..<14]"
    by (simp add: getMockPriceTrends_def currentTime_fixedHost trend_date_fixed comp_def)
  have "sorted_wrt (<) (map (\<lambda>i. toISODate (now c) + int i) [0..<14])"
    by (simp add: upt14)
  with d show ?thesis by simp
qed

text \<open>
  That first date is the UTC calendar day, not the user's: on 16 June 2025, 01:00 UTC,
  in a zone at UTC-05:00 (15 June, 20:00 local time) the series starts at 16 June (day
  20255) while the local calendar day is 15 June (day 20254).
\<close>

lemma series_starts_at_utc_day:
  "date (getMockPriceTrends (fixedHost \<lparr>now = 1750035600000, offsetMin = - 300\<rparr>) rnd ! 0) = 20255
   \<and> hostToday (fixedHost \<lparr>now = 1750035600000, offsetMin = - 300\<rparr>) = 20254
   \<and> localToday \<lparr>now = 1750035600000, offsetMin = - 300\<rparr> = 20254"
proof -
  let ?h = "fixedHost \<lparr>now = 1750035600000, offsetMin = - 300\<rparr>"
  have "toISODate (setDate ?h (currentTime ?h) (getDate ?h (currentTime ?h) + int 0)) = 20255"
    by code_simp
  moreover have "hostToday ?h = 20254" by code_simp
  moreover have "localToday \<lparr>now = 1750035600000, offsetMin = - 300\<rparr> = 20254" by code_simp
  ultimately show ?thesis by (simp add: trends_nth)
qed

text \<open>
  Claim C2 fails on the code. The 14 points and the 3 insights of types good, warning
  and info are there for every host, but the dates are the UTC calendar days of
  instants that keep the local time of day, so they neither start at the user's today
  nor always increase. In New York on 8 March 2025 at 19:30 (9 March, 00:30 UTC), the
  evening before clocks go forward: today is 8 March (day 20155); point 0 is 19:30 EST,
  which is 00:30 UTC on 9 March; point 1 is 19:30 EDT on 9 March, which is 23:30 UTC
  on 9 March. Both are dated 9 March (day 20156).
\<close>

theorem mock_series_repeats_a_date:
  "hostToday (newYork2025 1741480200000) = 20155
   \<and> date (getMockPriceTrends (newYork2025 1741480200000) rnd ! 0) = 20156
   \<and> date (getMockPriceTrends (newYork2025 1741480200000) rnd ! 1) = 20156
   \<and> \<not> sorted_wrt (<) (map date (getMockPriceTrends (newYork2025 1741480200000) rnd))"
proof -
  let ?h = "newYork2025 1741480200000"
  let ?pts = "getMockPriceTrends ?h rnd"
  have t: "hostToday ?h = 20155" by code_simp
  have "toISODate (setDate ?h (currentTime ?h) (getDate ?h (currentTime ?h) + int 0)) = 20156"
    by code_simp
  then have d0: "date (?pts ! 0) = 20156" by (simp add: trends_nth)
  have "toISODate (setDate ?h (currentTime ?h) (getDate ?h (currentTime ?h) + int 1)) = 20156"
    by code_simp
  then have d1: "date (?pts ! 1) = 20156" by (simp add: trends_nth)
  have "\<not> sorted_wrt (<) (map date ?pts)"
  proof
    assume "sorted_wrt (<) (map date ?pts)"
    then have "map date ?pts ! 0 < map date ?pts ! 1"
      by (rule sorted_wrt_nth_less) (simp_all add: trends_length)
    then show False using d0 d1 by (simp add: trends_length)
  qed
  with t d0 d1 show ?thesis by simp
qed

lemma filter_flags:
  "filter isLowestPrice (getMockPriceTrends c rnd) = [getMockPriceTrends c rnd ! 3]"
  by (simp add: getMockPriceTrends_def upt14)

text \<open>
  Claim C3. In every series of the mock client exactly one point has \<open>isLowestPrice\<close>
  set, the point of day index 3, whatever the prices are: for some draw of the random
  component (all draws in [0, 1)) another point is strictly cheaper than the flagged one.
\<close>

theorem lowest_flag_is_index_3:
  "filter isLowestPrice (getMockPriceTrends c rnd) = [getMockPriceTrends c rnd ! 3]
   \<and> (\<forall>i<14. isLowestPrice (getMockPriceTrends c rnd ! i) = (i = 3))
   \<and> (\<exists>rnd'. (\<forall>i. isUnitDouble (rnd' i))
          \<and> (\<exists>j<14. price (getMockPriceTrends c rnd' ! j) < price (getMockPriceTrends c rnd' ! 3)))"
proof -
  have flags: "\<forall>i<14. isLowestPrice (getMockPriceTrends c rnd ! i) = (i = 3)"
    by (simp add: trends_nth)
  let ?z = "\<lambda>_::nat. \<lparr>mant = 0, expo = 0\<rparr>"
  have p0: "mockPrice 0 \<lparr>mant = 0, expo = 0\<rparr> = 230" by (simp add: double_eval)
  have p3: "mockPrice 3 \<lparr>mant = 0, expo = 0\<rparr> = 260" by (simp add: double_eval)
  have "price (getMockPriceTrends c ?z ! 0) < price (getMockPriceTrends c ?z ! 3)"
    by (simp add: trends_nth p0 p3)
  then have "\<exists>j<14. price (getMockPriceTrends c ?z ! j) < price (getMockPriceTrends c ?z ! 3)"
    by (intro exI[of _ 0]) simp
  moreover have "\<forall>i. isUnitDouble (?z i)" by (simp add: isUnitDouble_def)
  ultimately have ex: "\<exists>rnd'. (\<forall>i. isUnitDouble (rnd' i))
          \<and> (\<exists>j<14. price (getMockPriceTrends c rnd' ! j) < price (getMockPriceTrends c rnd' ! 3))"
    by (intro exI[of _ ?z]) simp
  from filter_flags flags ex show ?thesis by blast
qed

text \<open>With every draw 0, point 3 is flagged and costs 260 while point 0 costs 230.\<close>

theorem lowest_flag_is_index_3_witness:
  "isLowestPrice (getMockPriceTrends (fixedHost \<lparr>now = 0, offsetMin = 0\<rparr>)
       (\<lambda>_. \<lparr>mant = 0, expo = 0\<rparr>) ! 3)
   \<and> \<not> isLowestPrice (getMockPriceTrends (fixedHost \<lparr>now = 0, offsetMin = 0\<rparr>)
       (\<lambda>_. \<lparr>mant = 0, expo = 0\<rparr>) ! 0)
   \<and> price (getMockPriceTrends (fixedHost \<lparr>now = 0, offsetMin = 0\<rparr>)
       (\<lambda>_. \<lparr>mant = 0, expo = 0\<rparr>) ! 0) = 230
   \<and> price (getMockPriceTrends (fixedHost \<lparr>now = 0, offsetMin = 0\<rparr>)
       (\<lambda>_. \<lparr>mant = 0, expo = 0\<rparr>) ! 3) = 260"
proof -
  have p0: "mockPrice 0 \<lparr>mant = 0, expo = 0\<rparr> = 230" by (simp add: double_eval)
  have p3: "mockPrice 3 \<lparr>mant = 0, expo = 0\<rparr> = 260" by (simp add: double_eval)
  from p0 p3 lowest_flag_is_index_3[of "fixedHost \<lparr>now = 0, offsetMin = 0\<rparr>"
      "\<lambda>_. \<lparr>mant = 0, expo = 0\<rparr>"]
  show ?thesis by (simp add: trends_nth)
qed

section \<open>The React search form and a failing search\<close>

text \<open>
  Claim C6. When the search fails inside \<open>searchFlights\<close>, the method shows exactly one
  error notification and re-throws the error; \<open>handleSearch\<close> catches it, adds no
  notification of its own (the user sees that one toast only), leaves the cached result
  as it was and clears its searching flag.
\<close>

theorem search_failure_reported_once:
  assumes "originInput f \<noteq> []" "destinationInput f \<noteq> []"
    and "departDateInput f \<noteq> []" "returnDateInput f \<noteq> []"
  shows "fst (searchFlights c rnd (Some err) params s) = Inl err
    \<and> toasts (snd (searchFlights c rnd (Some err) params s)) =
        toasts s @ [ToastError ''Failed to search flights. Please try again.'']
    \<and> toasts (handleSearch c rnd (Some err) f s) =
        toasts s @ [ToastError ''Failed to search flights. Please try again.'']
    \<and> isSearching (handleSearch c rnd (Some err) f s) = False
    \<and> queryData (handleSearch c rnd (Some err) f s) = queryData s"
  using assms by (simp add: searchFlights_def handleSearch_def Let_def)

text \<open>A filled-in form and a network error: one toast, the service's.\<close>

theorem search_failure_reported_once_witness:
  "toasts (handleSearch (fixedHost \<lparr>now = 0, offsetMin = 0\<rparr>) (\<lambda>_. \<lparr>mant = 0, expo = 0\<rparr>) (Some ''Network Error'')
      \<lparr>originInput = ''JFK'', destinationInput = ''LAX'', departDateInput = ''2025-06-15'',
       returnDateInput = ''2025-06-20'', passengersInput = ''1''\<rparr> initialApp) =
     [ToastError ''Failed to search flights. Please try again.'']"
  using search_failure_reported_once[of
      "\<lparr>originInput = ''JFK'', destinationInput = ''LAX'', departDateInput = ''2025-06-15'',
       returnDateInput = ''2025-06-20'', passengersInput = ''1''\<rparr>"
      "fixedHost \<lparr>now = 0, offsetMin = 0\<rparr>" "\<lambda>_. \<lparr>mant = 0, expo = 0\<rparr>" "''Network Error''" _ initialApp]
  by (simp add: initialApp_def)

text \<open>
  Claim C10. The submit handler of the React form checks only that origin, destination,
  departure date and return date are non-empty: when they are, the search runs (the
  service is called with the fields as they are, its result is cached and the success
  toast is shown); when one is empty, only the "fill in all required fields" toast is
  shown. No shape, inequality or date-range rule is applied: a form whose origin is not
  a three-letter code, whose destination equals its origin and whose departure date is
  31 December 1999 is searched.
\<close>

theorem handleSearch_checks_presence_only:
  "(originInput f \<noteq> [] \<and> destinationInput f \<noteq> [] \<and> departDateInput f \<noteq> [] \<and> returnDateInput f \<noteq> []
      \<longrightarrow> handleSearch c rnd None f s =
            s\<lparr>isSearching := False,
              toasts := toasts s @ [ToastSuccess ''Flight prices analyzed successfully!''],
              console := console s @ [ConsoleLog ''Searching flights with params:''
                \<lparr>origin = originInput f, destination = destinationInput f,
                 departDate = departDateInput f, returnDate = returnDateInput f,
                 passengers = parseInt10 (passengersInput f)\<rparr>],
              queryData := Some \<lparr>insights = getMockInsights, priceTrends = getMockPriceTrends c rnd\<rparr>\<rparr>)
   \<and> (originInput f = [] \<or> destinationInput f = [] \<or> departDateInput f = [] \<or> returnDateInput f = []
      \<longrightarrow> handleSearch c rnd None f s =
            s\<lparr>toasts := toasts s @ [ToastError ''Please fill in all required fields'']\<rparr>)
   \<and> (\<exists>g. \<not> isValidAirportCode (originInput g) \<and> originInput g = destinationInput g
          \<and> departDateInput g = ''1999-12-31''
          \<and> queryData (handleSearch c rnd None g s) =
              Some \<lparr>insights = getMockInsights, priceTrends = getMockPriceTrends c rnd\<rparr>)"
proof -
  let ?g = "\<lparr>originInput = ''x'', destinationInput = ''x'', departDateInput = ''1999-12-31'',
       returnDateInput = ''1999-12-30'', passengersInput = ''1''\<rparr>"
  have a: "originInput f \<noteq> [] \<and> destinationInput f \<noteq> [] \<and> departDateInput f \<noteq> [] \<and> returnDateInput f \<noteq> []
      \<longrightarrow> handleSearch c rnd None f s =
            s\<lparr>isSearching := False,
              toasts := toasts s @ [ToastSuccess ''Flight prices analyzed successfully!''],
              console := console s @ [ConsoleLog ''Searching flights with params:''
                \<lparr>origin = originInput f, destination = destinationInput f,
                 departDate = departDateInput f, returnDate = returnDateInput f,
                 passengers = parseInt10 (passengersInput f)\<rparr>],
              queryData := Some \<lparr>insights = getMockInsights, priceTrends = getMockPriceTrends c rnd\<rparr>\<rparr>"
    by (simp add: searchFlights_def handleSearch_def Let_def)
  have b: "originInput f = [] \<or> destinationInput f = [] \<or> departDateInput f = [] \<or> returnDateInput f = []
      \<longrightarrow> handleSearch c rnd None f s =
            s\<lparr>toasts := toasts s @ [ToastError ''Please fill in all required fields'']\<rparr>"
    by (simp add: handleSearch_def)
  have "\<not> isValidAirportCode (originInput ?g)" by (simp add: isValidAirportCode_def)
  moreover have "queryData (handleSearch c rnd None ?g s) =
              Some \<lparr>insights = getMockInsights, priceTrends = getMockPriceTrends c rnd\<rparr>"
    by (simp add: searchFlights_def handleSearch_def Let_def)
  ultimately have e: "\<exists>g. \<not> isValidAirportCode (originInput g) \<and> originInput g = destinationInput g
          \<and> departDateInput g = ''1999-12-31''
          \<and> queryData (handleSearch c rnd None g s) =
              Some \<lparr>insights = getMockInsights, priceTrends = getMockPriceTrends c rnd\<rparr>"
    by (intro exI[of _ ?g]) simp
  from a b e show ?thesis by blast
qed

text \<open>The search runs for origin and destination "x"; an empty origin gets the toast.\<close>

theorem handleSearch_checks_presence_only_witness:
  "queryData (handleSearch (fixedHost \<lparr>now = 0, offsetMin = 0\<rparr>) (\<lambda>_. \<lparr>mant = 0, expo = 0\<rparr>) None
      \<lparr>originInput = ''x'', destinationInput = ''x'', departDateInput = ''1999-12-31'',
       returnDateInput = ''1999-12-30'', passengersInput = ''1''\<rparr> initialApp) =
     Some \<lparr>insights = getMockInsights, priceTrends = getMockPriceTrends (fixedHost \<lparr>now = 0, offsetMin = 0\<rparr>) (\<lambda>_. \<lparr>mant = 0, expo = 0\<rparr>)\<rparr>
   \<and> toasts (handleSearch (fixedHost \<lparr>now = 0, offsetMin = 0\<rparr>) (\<lambda>_. \<lparr>mant = 0, expo = 0\<rparr>) None
      \<lparr>originInput = [], destinationInput = ''x'', departDateInput = ''1999-12-31'',
       returnDateInput = ''1999-12-30'', passengersInput = ''1''\<rparr> initialApp) =
     [ToastError ''Please fill in all required fields'']"
  using handleSearch_checks_presence_only[of
      "\<lparr>originInput = ''x'', destinationInput = ''x'', departDateInput = ''1999-12-31'',
       returnDateInput = ''1999-12-30'', passengersInput = ''1''\<rparr>"
      "fixedHost \<lparr>now = 0, offsetMin = 0\<rparr>" "\<lambda>_. \<lparr>mant = 0, expo = 0\<rparr>" initialApp]
    handleSearch_checks_presence_only[of
      "\<lparr>originInput = [], destinationInput = ''x'', departDateInput = ''1999-12-31'',
       returnDateInput = ''1999-12-30'', passengersInput = ''1''\<rparr>"
      "fixedHost \<lparr>now = 0, offsetMin = 0\<rparr>" "\<lambda>_. \<lparr>mant = 0, expo = 0\<rparr>" initialApp]
  by (simp add: initialApp_def)

section \<open>The insight panel's fallback\<close>

text \<open>
  Claim C7, as the code has it. While no search result is cached (\<open>priceData\<close> is
  undefined) the panel renders the 3 fixed insights (Lowest Price / good, Price Trend /
  warning, Future Prediction / info, with the badges Good Deal, Act Soon and AI
  Prediction); once a result is cached the panel renders that result's insights as
  they are, so an empty sequence renders no insight.
\<close>

theorem insights_fallback_needs_no_data:
  "PriceAnalysis None = map renderInsight defaultInsights
   \<and> map cardTitle (PriceAnalysis None) = [''Lowest Price'', ''Price Trend'', ''Future Prediction'']
   \<and> map cardBadge (PriceAnalysis None) = [''Good Deal'', ''Act Soon'', ''AI Prediction'']
   \<and> map type (panelInsights None) = [Good, Warning, Info]
   \<and> PriceAnalysis (Some d) = map renderInsight (insights d)
   \<and> (insights d = [] \<longrightarrow> PriceAnalysis (Some d) = [])"
  by (simp add: PriceAnalysis_def panelInsights_def defaultInsights_def renderInsight_def badgeLabel_def)

text \<open>A cached result with no insights renders no card.\<close>

theorem insights_fallback_needs_no_data_witness:
  "PriceAnalysis (Some \<lparr>insights = [], priceTrends = []\<rparr>) = []"
  using insights_fallback_needs_no_data[of "\<lparr>insights = [], priceTrends = []\<rparr>"]
  by simp

text \<open>
  Claim C7 as stated fails: given the empty sequence, the panel renders nothing, not
  the three fallback insights.
\<close>

theorem empty_insights_render_nothing:
  "PriceAnalysis (Some \<lparr>insights = [], priceTrends = []\<rparr>) = []
   \<and> PriceAnalysis (Some \<lparr>insights = [], priceTrends = []\<rparr>) \<noteq> map renderInsight defaultInsights
   \<and> length (map renderInsight defaultInsights) = 3"
  by (simp add: PriceAnalysis_def panelInsights_def defaultInsights_def)

section \<open>The legacy form's validation\<close>

lemma selectedDate_eq: "selectedDate d = d * msPerDay"
  by (simp add: selectedDate_def parseISODate_def MakeDate_def)

lemma today_before_maxDate: "today c < maxDate c"
proof -
  have "today c \<le> now c"
    using now_split[of c] TimeWithinDay_range[of "LocalTime c (now c)"]
    by (simp add: today_eq)
  moreover have "now c < now c + 364 * msPerDay" by (simp add: msPerDay_def)
  ultimately show ?thesis using maxDate_bounds[of c] by linarith
qed

lemma airport_chain:
  "validateAirportCodes a b v =
     (if \<not> isValidAirportCode a then fail msgOrigin
      else if \<not> isValidAirportCode b then fail msgDestination
      else if a = b then fail msgSame
      else v)"
  by (auto simp add: validateAirportCodes_def isValidAirportCode_def)

lemma validateDate_Some:
  "validateDate c (Some d) v =
     (if selectedDate d > maxDate c then fail msgTooFar
      else if selectedDate d < today c then fail msgPast
      else v)"
  by (simp add: validateDate_def Let_def)

lemma validateSearch_None:
  "dateField f = None \<Longrightarrow> validateSearch c f = fail msgNoDate"
  by (simp add: validateSearch_def validateDate_def Let_def)

lemma validateSearch_Some:
  "dateField f = Some d \<Longrightarrow>
   validateSearch c f =
     (if selectedDate d > maxDate c then fail msgTooFar
      else if selectedDate d < today c then fail msgPast
      else validateAirportCodes (trim (originField f)) (trim (destinationField f))
             \<lparr>isValid = True, errorMessage = []\<rparr>)"
  by (simp add: validateSearch_def validateDate_Some Let_def)

lemma onSubmit_fail:
  "validateSearch c f = fail m \<Longrightarrow>
   onSubmit c f p = p\<lparr>defaultPrevented := True, errorAlert := Some m\<rparr>"
  by (simp add: onSubmit_def Let_def fail_def showFormError_def)

text \<open>
  Claim C1, as the code has it. The airport rules are evaluated in the order origin
  shape, destination shape, inequality, and the first failing one sets the message.
  The date rules (presence, not in the past, not more than a year ahead) are evaluated
  after them whatever they found, and a failing date rule replaces the message. So the
  single message shown is that of the failing date rule if one fails, and otherwise that
  of the first failing airport rule; the submission is cancelled exactly when some rule
  fails.
\<close>

theorem date_rules_override_airport_rules:
  "errorMessage (validateSearch c f) =
     (case dateField f of
        None \<Rightarrow> msgNoDate
      | Some d \<Rightarrow>
          if selectedDate d > maxDate c then msgTooFar
          else if selectedDate d < today c then msgPast
          else if \<not> isValidAirportCode (trim (originField f)) then msgOrigin
          else if \<not> isValidAirportCode (trim (destinationField f)) then msgDestination
          else if trim (originField f) = trim (destinationField f) then msgSame
          else [])
   \<and> isValid (validateSearch c f) =
     (case dateField f of
        None \<Rightarrow> False
      | Some d \<Rightarrow>
          \<not> selectedDate d > maxDate c \<and> \<not> selectedDate d < today c
          \<and> isValidAirportCode (trim (originField f))
          \<and> isValidAirportCode (trim (destinationField f))
          \<and> trim (originField f) \<noteq> trim (destinationField f))
   \<and> onSubmit c f p =
     (if isValid (validateSearch c f) then p
      else p\<lparr>defaultPrevented := True, errorAlert := Some (errorMessage (validateSearch c f))\<rparr>)"
proof -
  have s: "onSubmit c f p =
     (if isValid (validateSearch c f) then p
      else p\<lparr>defaultPrevented := True, errorAlert := Some (errorMessage (validateSearch c f))\<rparr>)"
    by (simp add: onSubmit_def Let_def showFormError_def)
  show ?thesis
  proof (cases "dateField f")
    case None
    then show ?thesis using s by (simp add: validateSearch_None fail_def)
  next
    case (Some d)
    then show ?thesis using s by (simp add: validateSearch_Some airport_chain fail_def)
  qed
qed

text \<open>With the date in range, a two-letter origin gets the origin message and a
  well-formed form gets none.\<close>

theorem date_rules_override_airport_rules_witness:
  "errorMessage (validateSearch \<lparr>now = 0, offsetMin = 0\<rparr>
      \<lparr>originField = ''jf'', destinationField = ''LAX'', dateField = Some 0\<rparr>) = msgOrigin
   \<and> errorMessage (validateSearch \<lparr>now = 0, offsetMin = 0\<rparr>
      \<lparr>originField = ''JFK'', destinationField = ''LAX'', dateField = Some 0\<rparr>) = []"
proof -
  let ?c = "\<lparr>now = 0, offsetMin = 0\<rparr>"
  have a: "\<not> selectedDate 0 > maxDate ?c" by code_simp
  have b: "\<not> selectedDate 0 < today ?c" by code_simp
  have c: "\<not> isValidAirportCode (trim ''jf'')" by code_simp
  have d: "isValidAirportCode (trim ''JFK'')" by code_simp
  have e: "isValidAirportCode (trim ''LAX'')" by code_simp
  have f: "trim ''JFK'' \<noteq> trim ''LAX''" by code_simp
  from a b c d e f
    date_rules_override_airport_rules[of ?c "\<lparr>originField = ''jf'', destinationField = ''LAX'', dateField = Some 0\<rparr>"]
    date_rules_override_airport_rules[of ?c "\<lparr>originField = ''JFK'', destinationField = ''LAX'', dateField = Some 0\<rparr>"]
  show ?thesis by simp
qed

text \<open>
  Claim C1 as stated fails: with a two-letter origin and no date the message shown is
  the date message, and with a two-letter origin and yesterday's date it is the
  past-date message, where the first failing rule in the specification's order is the
  origin rule.
\<close>

theorem first_failure_does_not_win:
  "errorAlert (onSubmit \<lparr>now = 0, offsetMin = 0\<rparr>
      \<lparr>originField = ''jf'', destinationField = ''LAX'', dateField = None\<rparr> freshPage) = Some msgNoDate
   \<and> firstFailingRule \<lparr>now = 0, offsetMin = 0\<rparr>
      \<lparr>originField = ''jf'', destinationField = ''LAX'', dateField = None\<rparr> = Some msgOrigin
   \<and> errorAlert (onSubmit \<lparr>now = 0, offsetMin = 0\<rparr>
      \<lparr>originField = ''jf'', destinationField = ''LAX'', dateField = Some (- 1)\<rparr> freshPage) = Some msgPast
   \<and> firstFailingRule \<lparr>now = 0, offsetMin = 0\<rparr>
      \<lparr>originField = ''jf'', destinationField = ''LAX'', dateField = Some (- 1)\<rparr> = Some msgOrigin
   \<and> msgNoDate \<noteq> msgOrigin \<and> msgPast \<noteq> msgOrigin"
  by code_simp

section \<open>The legacy form's date boundaries\<close>

text \<open>
  The selected date is read as midnight UTC, \<open>today\<close> is midnight local time and
  \<open>maxDate\<close> is the current instant moved one year on in local time. In a zone at UTC
  the three agree on what a day is; elsewhere they do not.
\<close>

lemma not_too_far_near_today:
  "d \<le> localToday c + 1 \<Longrightarrow> offsetMin c < 1440 \<Longrightarrow> \<not> selectedDate d > maxDate c"
proof -
  assume d: "d \<le> localToday c + 1" and o: "offsetMin c < 1440"
  have 1: "d * msPerDay \<le> (localToday c + 1) * msPerDay" using d by (simp add: msPerDay_def)
  have 2: "localToday c * msPerDay - offsetMin c * msPerMinute \<le> now c"
    using now_split[of c] TimeWithinDay_range[of "LocalTime c (now c)"] by linarith
  have 3: "offsetMin c * msPerMinute < msPerDay"
    using o by (simp add: msPerDay_def msPerMinute_def)
  have 4: "now c + 364 * msPerDay \<le> maxDate c" using maxDate_bounds[of c] by simp
  have 5: "0 < msPerDay" by (simp add: msPerDay_def)
  have 6: "(localToday c + 1) * msPerDay = localToday c * msPerDay + msPerDay"
    by (simp add: algebra_simps)
  show ?thesis unfolding selectedDate_eq using 1 2 3 4 5 6 by linarith
qed

lemma past_date_rejected:
  assumes "dateField f = Some d" and "d < localToday c"
    and "- 1440 < offsetMin c" and "offsetMin c < 1440"
  shows "validateSearch c f = fail msgPast"
proof -
  have "d * msPerDay \<le> (localToday c - 1) * msPerDay" using assms(2) by (simp add: msPerDay_def)
  moreover have "offsetMin c * msPerMinute < msPerDay"
    using assms(4) by (simp add: msPerDay_def msPerMinute_def)
  ultimately have p: "selectedDate d < today c"
    by (simp add: selectedDate_eq today_eq algebra_simps)
  have "\<not> selectedDate d > maxDate c"
    using assms(2,4) by (intro not_too_far_near_today) simp_all
  with p assms(1) show ?thesis by (simp add: validateSearch_Some)
qed

lemma today_accepted_east_of_utc:
  assumes "dateField f = Some (localToday c)" and "0 \<le> offsetMin c" and "offsetMin c < 1440"
    and "isValidAirportCode (trim (originField f))"
    and "isValidAirportCode (trim (destinationField f))"
    and "trim (originField f) \<noteq> trim (destinationField f)"
  shows "onSubmit c f p = p"
proof -
  have "0 \<le> offsetMin c * msPerMinute" using assms(2) by (simp add: msPerMinute_def)
  then have a: "\<not> selectedDate (localToday c) < today c"
    by (simp add: selectedDate_eq today_eq)
  have b: "\<not> selectedDate (localToday c) > maxDate c"
    using assms(3) by (intro not_too_far_near_today) simp_all
  from a b assms have "validateSearch c f = \<lparr>isValid = True, errorMessage = []\<rparr>"
    by (simp add: validateSearch_Some airport_chain)
  then show ?thesis by (simp add: onSubmit_def Let_def)
qed

text \<open>
  Claim C4 fails on the code west of UTC. There, whatever the time of day and the
  airport codes, submitting today's date (the local calendar day) is rejected with the
  past-date message: midnight UTC of today is earlier than midnight local time of
  today. (Dates before today are rejected in every zone, and today is accepted at UTC
  and east of it: \<open>past_date_rejected\<close>, \<open>today_accepted_east_of_utc\<close>.)
\<close>

theorem today_rejected_west_of_utc:
  assumes "dateField f = Some (localToday c)"
    and "offsetMin c < 0"
  shows "onSubmit c f p = p\<lparr>defaultPrevented := True, errorAlert := Some msgPast\<rparr>"
proof -
  have "offsetMin c * msPerMinute < 0" using assms(2) by (simp add: msPerMinute_def)
  then have a: "selectedDate (localToday c) < today c"
    by (simp add: selectedDate_eq today_eq)
  have b: "\<not> selectedDate (localToday c) > maxDate c"
    using assms(2) by (intro not_too_far_near_today) simp_all
  from a b assms(1) have "validateSearch c f = fail msgPast"
    by (simp add: validateSearch_Some)
  then show ?thesis by (rule onSubmit_fail)
qed

text \<open>15 June 2025, 15:00 UTC, in a zone at UTC-05:00 (10:00 local time): the local
  and the UTC calendar day are both 15 June 2025 (day 20254), and that date is rejected.\<close>

theorem today_rejected_west_of_utc_witness:
  "localToday \<lparr>now = 1749999600000, offsetMin = - 300\<rparr> = 20254
   \<and> toISODate (now \<lparr>now = 1749999600000, offsetMin = - 300\<rparr>) = 20254
   \<and> onSubmit \<lparr>now = 1749999600000, offsetMin = - 300\<rparr>
        \<lparr>originField = ''JFK'', destinationField = ''LAX'', dateField = Some 20254\<rparr> freshPage
      = \<lparr>defaultPrevented = True, errorAlert = Some msgPast\<rparr>"
proof -
  let ?c = "\<lparr>now = 1749999600000, offsetMin = - 300\<rparr>"
  let ?f = "\<lparr>originField = ''JFK'', destinationField = ''LAX'', dateField = Some 20254\<rparr>"
  have l: "localToday ?c = 20254" by code_simp
  have u: "toISODate (now ?c) = 20254" by code_simp
  have "dateField ?f = Some (localToday ?c)" using l by simp
  then have "onSubmit ?c ?f freshPage = freshPage\<lparr>defaultPrevented := True, errorAlert := Some msgPast\<rparr>"
    by (rule today_rejected_west_of_utc) simp_all
  with l u show ?thesis by (simp add: freshPage_def)
qed

lemma Day_MakeDate: "Day (MakeDate d 0) = d"
  by (simp add: Day_def MakeDate_def msPerDay_def)

lemma calendar_of_day:
  assumes "Day a = Day b"
  shows "YearFromTime a = YearFromTime b" and "MonthFromTime a = MonthFromTime b"
    and "DateFromTime a = DateFromTime b"
proof -
  show y: "YearFromTime a = YearFromTime b" using assms by (simp add: YearFromTime_def)
  have w: "DayWithinYear a = DayWithinYear b" using assms y by (simp add: DayWithinYear_def)
  show m: "MonthFromTime a = MonthFromTime b" using y w by (simp add: MonthFromTime_def)
  show "DateFromTime a = DateFromTime b" using y w m by (simp add: DateFromTime_def)
qed

lemma maxDate_oneYearLater:
  "maxDate c = oneYearLater (localToday c) * msPerDay
               + TimeWithinDay (LocalTime c (now c)) - offsetMin c * msPerMinute"
proof -
  have "Day (MakeDate (localToday c) 0) = Day (LocalTime c (now c))"
    by (simp add: Day_MakeDate localToday_def)
  from calendar_of_day[OF this] show ?thesis
    by (simp add: maxDate_eq oneYearLater_def Let_def)
qed

lemma year_rule_at_utc:
  assumes "offsetMin c = 0"
  shows "(selectedDate d > maxDate c) = (d > oneYearLater (localToday c))"
proof -
  let ?t = "TimeWithinDay (LocalTime c (now c))" and ?P = "oneYearLater (localToday c)"
  have m: "maxDate c = ?P * msPerDay + ?t" using assms by (simp add: maxDate_oneYearLater)
  have t: "0 \<le> ?t" "?t < msPerDay" using TimeWithinDay_range[of "LocalTime c (now c)"] by simp_all
  show ?thesis
  proof (cases "d > ?P")
    case True
    then have "(?P + 1) * msPerDay \<le> d * msPerDay" by (simp add: msPerDay_def)
    then have "?P * msPerDay + msPerDay \<le> d * msPerDay" by (simp add: algebra_simps)
    with t have "selectedDate d > maxDate c" unfolding selectedDate_eq m by linarith
    with True show ?thesis by simp
  next
    case False
    then have "d * msPerDay \<le> ?P * msPerDay" by (simp add: msPerDay_def)
    with t have "\<not> selectedDate d > maxDate c" unfolding selectedDate_eq m by linarith
    with False show ?thesis by simp
  qed
qed

text \<open>
  Claim C5 fails on the code east of UTC. While the local time of day is earlier than
  the zone's offset, the date exactly one calendar year after today is rejected with
  the "more than 1 year" message: its midnight UTC is later than the current instant
  moved one year on. (At UTC the rule is exactly "later than today plus one year":
  \<open>year_rule_at_utc\<close>.)
\<close>

theorem year_boundary_rejected_east_of_utc:
  assumes "dateField f = Some (oneYearLater (localToday c))"
    and "TimeWithinDay (LocalTime c (now c)) < offsetMin c * msPerMinute"
  shows "onSubmit c f p = p\<lparr>defaultPrevented := True, errorAlert := Some msgTooFar\<rparr>"
proof -
  have "selectedDate (oneYearLater (localToday c)) > maxDate c"
    using assms(2) by (simp add: selectedDate_eq maxDate_oneYearLater)
  with assms(1) have "validateSearch c f = fail msgTooFar"
    by (simp add: validateSearch_Some)
  then show ?thesis by (rule onSubmit_fail)
qed

text \<open>14 June 2025, 23:00 UTC, in a zone at UTC+02:00 (15 June, 01:00 local time):
  today is 15 June 2025 (day 20254), one year later is 15 June 2026 (day 20619), and
  that date is rejected.\<close>

theorem year_boundary_rejected_east_of_utc_witness:
  "localToday \<lparr>now = 1749942000000, offsetMin = 120\<rparr> = 20254
   \<and> oneYearLater 20254 = 20619
   \<and> onSubmit \<lparr>now = 1749942000000, offsetMin = 120\<rparr>
        \<lparr>originField = ''JFK'', destinationField = ''LAX'', dateField = Some 20619\<rparr> freshPage
      = \<lparr>defaultPrevented = True, errorAlert = Some msgTooFar\<rparr>"
proof -
  let ?c = "\<lparr>now = 1749942000000, offsetMin = 120\<rparr>"
  let ?f = "\<lparr>originField = ''JFK'', destinationField = ''LAX'', dateField = Some 20619\<rparr>"
  have l: "localToday ?c = 20254" by code_simp
  have y: "oneYearLater 20254 = 20619" by code_simp
  have t: "TimeWithinDay (LocalTime ?c (now ?c)) < offsetMin ?c * msPerMinute" by code_simp
  have "dateField ?f = Some (oneYearLater (localToday ?c))" using l y by simp
  then have "onSubmit ?c ?f freshPage = freshPage\<lparr>defaultPrevented := True, errorAlert := Some msgTooFar\<rparr>"
    using t by (rule year_boundary_rejected_east_of_utc)
  with l y show ?thesis by (simp add: freshPage_def)
qed

text \<open>West of UTC late in the day the rule errs the other way. 16 June 2025, 02:00
  UTC, in a zone at UTC-05:00 (15 June, 21:00 local time): 16 June 2026, one year and
  a day after today, is accepted.\<close>

lemma beyond_a_year_accepted_west_of_utc:
  "localToday \<lparr>now = 1750039200000, offsetMin = - 300\<rparr> = 20254
   \<and> oneYearLater 20254 = 20619
   \<and> onSubmit \<lparr>now = 1750039200000, offsetMin = - 300\<rparr>
        \<lparr>originField = ''JFK'', destinationField = ''LAX'', dateField = Some 20620\<rparr> freshPage
      = freshPage"
  by code_simp

end
